theory Spec2Isabelle
  imports Main "HOL-Library.AList"
begin

section \<open>Python values used by \<^verbatim>\<open>url_scraper.py\<close>\<close>

text \<open>
  A Python \<^verbatim>\<open>str\<close> is a sequence of Unicode code points and \<^verbatim>\<open>len\<close> counts code
  points, so a string is a list of code points (natural numbers). Dictionary keys are the
  ASCII literals of the source and stay HOL strings. A dictionary is an association list
  in insertion order with distinct keys.
\<close>

type_synonym codepoint = nat
type_synonym pystr = "codepoint list"

definition ustr :: "string \<Rightarrow> pystr" where
  "ustr s = map of_char s"

datatype pyval = PyNone | PyBool bool | PyStr pystr

type_synonym pydict = "(string \<times> pyval) list"

text \<open>
  The exceptions of the model are instances of Python's class \<^verbatim>\<open>Exception\<close>: what the
  libraries and the interpreter raise in the code below, and what \<^verbatim>\<open>except Exception\<close>
  handles.
\<close>

datatype fault =
    NetworkTimeout
  | HTTPError nat
  | ParseError
  | BrowserLaunchFailure
  | ValueError
  | TypeError
  | KeyError
  | AttributeError
  | OtherException string

text \<open>Truth value of a Python object, as \<^verbatim>\<open>if x\<close> and \<^verbatim>\<open>not x\<close> read it.\<close>

fun truthy :: "pyval \<Rightarrow> bool" where
  "truthy PyNone = False"
| "truthy (PyBool b) = b"
| "truthy (PyStr s) = (s \<noteq> [])"

text \<open>\<^verbatim>\<open>len(x)\<close>: defined on strings, a \<^verbatim>\<open>TypeError\<close> on \<^verbatim>\<open>None\<close> and on booleans.\<close>

fun py_len :: "pyval \<Rightarrow> fault + nat" where
  "py_len (PyStr s) = Inr (length s)"
| "py_len PyNone = Inl TypeError"
| "py_len (PyBool b) = Inl TypeError"

text \<open>\<^verbatim>\<open>d.get(k, default)\<close>.\<close>

definition dict_get :: "pydict \<Rightarrow> string \<Rightarrow> pyval \<Rightarrow> pyval" where
  "dict_get d k dflt = (case map_of d k of None \<Rightarrow> dflt | Some v \<Rightarrow> v)"

text \<open>\<^verbatim>\<open>d[k]\<close>: a \<^verbatim>\<open>KeyError\<close> when the key is missing.\<close>

definition dict_index :: "pydict \<Rightarrow> string \<Rightarrow> fault + pyval" where
  "dict_index d k = (case map_of d k of None \<Rightarrow> Inl KeyError | Some v \<Rightarrow> Inr v)"

text \<open>
  \<^verbatim>\<open>getattr(obj, name, default)\<close>. An object is \<^verbatim>\<open>None\<close> (which has none of the
  attributes read here) or a list of its attributes with their values; an attribute that
  exists is returned whatever its value, also when the value is \<^verbatim>\<open>None\<close>.
\<close>

type_synonym pyobj = "(string \<times> pyval) list"

definition getattr :: "pyobj option \<Rightarrow> string \<Rightarrow> pyval \<Rightarrow> pyval" where
  "getattr obj name dflt =
     (case obj of
        None \<Rightarrow> dflt
      | Some attrs \<Rightarrow> (case map_of attrs name of None \<Rightarrow> dflt | Some v \<Rightarrow> v))"

section \<open>Text functions\<close>

text \<open>
  The whitespace of \<^verbatim>\<open>str.strip()\<close> and of \<^verbatim>\<open>\s\<close> in a \<^verbatim>\<open>str\<close> pattern is the same set of
  code points (\<^verbatim>\<open>Py_UNICODE_ISSPACE\<close>).
\<close>

definition is_space :: "codepoint \<Rightarrow> bool" where
  "is_space c =
     ((9 \<le> c \<and> c \<le> 13) \<or> (28 \<le> c \<and> c \<le> 32) \<or> c = 133 \<or> c = 160 \<or> c = 5760
      \<or> (8192 \<le> c \<and> c \<le> 8202) \<or> c = 8232 \<or> c = 8233 \<or> c = 8239 \<or> c = 8287
      \<or> c = 12288)"

definition py_lstrip :: "pystr \<Rightarrow> pystr" where
  "py_lstrip s = dropWhile is_space s"

definition py_rstrip :: "pystr \<Rightarrow> pystr" where
  "py_rstrip s = rev (dropWhile is_space (rev s))"

definition py_strip :: "pystr \<Rightarrow> pystr" where
  "py_strip s = py_lstrip (py_rstrip s)"

text \<open>\<^verbatim>\<open>sep.join(xs)\<close>.\<close>

fun py_join :: "pystr \<Rightarrow> pystr list \<Rightarrow> pystr" where
  "py_join sep [] = []"
| "py_join sep [x] = x"
| "py_join sep (x # y # ys) = x @ sep @ py_join sep (y # ys)"

text \<open>\<^verbatim>\<open>s.startswith(prefix)\<close>.\<close>

definition startswith :: "pystr \<Rightarrow> pystr \<Rightarrow> bool" where
  "startswith s p = (take (length p) s = p)"

text \<open>
  The pattern \<^verbatim>\<open>\s*\n\<close> tried at the head of a text, as the backtracking matcher does:
  the star first takes the whitespace character in front and the rest of the pattern is
  tried on what follows; when that fails the star takes nothing and the character in front
  has to be the newline (code point 10). The result is the text after the match.
\<close>

fun skip_blank :: "pystr \<Rightarrow> pystr option" where
  "skip_blank [] = None"
| "skip_blank (c # cs) =
     (if is_space c then
        (case skip_blank cs of
           Some r \<Rightarrow> Some r
         | None \<Rightarrow> if c = 10 then Some cs else None)
      else None)"

text \<open>
  \<^verbatim>\<open>re.sub(r'\n\s*\n', '\n\n', text)\<close>: the leftmost match is replaced and the scan goes
  on after it.
\<close>

function sub_blank :: "pystr \<Rightarrow> pystr" where
  "sub_blank [] = []"
| "sub_blank (c # cs) =
     (if c = 10 then
        (case skip_blank cs of
           Some r \<Rightarrow> 10 # 10 # sub_blank r
         | None \<Rightarrow> c # sub_blank cs)
      else c # sub_blank cs)"
  by pat_completeness auto
termination
proof (relation "measure length")
  fix c :: codepoint and cs r :: pystr
  assume "skip_blank cs = Some r"
  moreover have "skip_blank xs = Some ys \<Longrightarrow> length ys < length xs" for xs ys
    by (induction xs arbitrary: ys) (auto split: if_splits option.splits)
  ultimately show "(r, c # cs) \<in> measure length"
    by fastforce
qed simp_all

text \<open>
  \<^verbatim>\<open>re.sub(r' +', ' ', text)\<close>: a run of spaces (code point 32) is matched whole and
  replaced by one space.
\<close>

function sub_spaces :: "pystr \<Rightarrow> pystr" where
  "sub_spaces [] = []"
| "sub_spaces (c # cs) =
     (if c = 32 then 32 # sub_spaces (dropWhile (\<lambda>d. d = 32) cs)
      else c # sub_spaces cs)"
  by pat_completeness auto
termination
  by (relation "measure length") (auto simp: length_dropWhile_le less_Suc_eq_le)

text \<open>\<^verbatim>\<open>ArticleScraper.clean_text\<close>, on a string.\<close>

definition clean_text :: "pystr \<Rightarrow> pystr" where
  "clean_text text =
     (if text = [] then []
      else py_strip (sub_spaces (sub_blank text)))"

section \<open>The outside world\<close>

text \<open>
  What the libraries answer is a parameter of the model. A call that raises answers
  \<open>Inl\<close> of the exception. Within one call of \<open>extract_article_content\<close> each
  library function is called at most once on a given argument, so its answer is a function
  of the argument. The lines printed to the console are left out.
\<close>

text \<open>
  A parsed page, as the queries of the source see it: \<^verbatim>\<open>soup.find(...)\<close> is \<open>None\<close> for
  no tag; for a \<^verbatim>\<open>title\<close> or \<^verbatim>\<open>h1\<close> tag the value is its \<^verbatim>\<open>get_text()\<close>, for a \<^verbatim>\<open>meta\<close> tag
  it is \<^verbatim>\<open>tag.get('content')\<close> (\<open>None\<close> when the attribute is missing). A tag is always
  truthy.
\<close>

record soup =
  find_title :: "pystr option"
  find_meta_og_title :: "pystr option option"
  find_meta_name_title :: "pystr option option"
  find_h1 :: "pystr option"
  find_meta_name_author :: "pystr option option"
  find_meta_published_time :: "pystr option option"
  find_meta_og_description :: "pystr option option"
  find_meta_name_description :: "pystr option option"
  find_all_p :: "pystr list"

record response =
  status_code :: nat
  body :: pystr

text \<open>
  A parsed \<^verbatim>\<open>newspaper.Article\<close>; \<open>publish_date\<close> is \<open>None\<close> or \<^verbatim>\<open>str\<close> of the date.
\<close>

record article =
  art_text :: pystr
  art_title :: pystr
  art_authors :: "pystr list"
  art_publish_date :: "pystr option"
  art_meta_description :: pystr

record world =
  urlparse :: "pystr \<Rightarrow> fault + (pystr \<times> pystr)"
  traf_fetch_url :: "pystr \<Rightarrow> fault + pystr option"
  traf_extract :: "pystr \<Rightarrow> fault + pystr option"
  traf_extract_metadata :: "pystr \<Rightarrow> fault + pyobj option"
  session_get :: "pystr \<Rightarrow> fault + response"
  bs_parse :: "pystr \<Rightarrow> fault + soup"
  newspaper_article :: "pystr \<Rightarrow> fault + article"
  browser_content :: "pystr \<Rightarrow> fault + pystr"

section \<open>\<^verbatim>\<open>ArticleScraper\<close>\<close>

text \<open>
  \<^verbatim>\<open>is_valid_url\<close>: \<open>urlparse\<close> answers the scheme and the netloc; the bare \<^verbatim>\<open>except\<close>
  turns any exception into \<^verbatim>\<open>False\<close>.
\<close>

definition is_valid_url :: "world \<Rightarrow> pystr \<Rightarrow> bool" where
  "is_valid_url w url =
     (case urlparse w url of
        Inl e \<Rightarrow> False
      | Inr (scheme, netloc) \<Rightarrow> scheme \<noteq> [] \<and> netloc \<noteq> [])"

text \<open>
  \<^verbatim>\<open>extract_metadata\<close>. Each statement of the \<^verbatim>\<open>try\<close> block is a step on the dictionary;
  a step that raises ends the block and the dictionary is returned as it is then.
\<close>

fun run_steps :: "(pydict \<Rightarrow> fault + pydict) list \<Rightarrow> pydict \<Rightarrow> pydict" where
  "run_steps [] md = md"
| "run_steps (s # ss) md = (case s md of Inl e \<Rightarrow> md | Inr md' \<Rightarrow> run_steps ss md')"

text \<open>\<^verbatim>\<open>a or b\<close> on the results of two \<^verbatim>\<open>find\<close> calls.\<close>

definition tag_or :: "'a option \<Rightarrow> 'a option \<Rightarrow> 'a option" where
  "tag_or a b = (case a of Some t \<Rightarrow> Some t | None \<Rightarrow> b)"

text \<open>
  \<^verbatim>\<open>if tag and tag.get('content'): metadata[key] = tag['content'].strip()\<close>
\<close>

definition set_from_meta :: "string \<Rightarrow> pystr option option \<Rightarrow> pydict \<Rightarrow> fault + pydict" where
  "set_from_meta key tag md =
     (case tag of
        Some (Some c) \<Rightarrow> if c \<noteq> [] then Inr (AList.update key (PyStr (py_strip c)) md) else Inr md
      | _ \<Rightarrow> Inr md)"

definition extract_metadata :: "soup \<Rightarrow> pystr \<Rightarrow> pydict" where
  "extract_metadata sp url =
     run_steps
       [\<lambda>md. (case find_title sp of
                 Some t \<Rightarrow> Inr (AList.update ''title'' (PyStr (py_strip t)) md)
               | None \<Rightarrow> Inr md),
        set_from_meta ''title'' (tag_or (find_meta_og_title sp) (find_meta_name_title sp)),
        \<lambda>md. (case find_h1 sp of
                 Some h \<Rightarrow>
                   (case dict_index md ''title'' of
                      Inl e \<Rightarrow> Inl e
                    | Inr t \<Rightarrow> if \<not> truthy t
                               then Inr (AList.update ''title'' (PyStr (py_strip h)) md)
                               else Inr md)
               | None \<Rightarrow> Inr md),
        set_from_meta ''author'' (find_meta_name_author sp),
        set_from_meta ''date'' (find_meta_published_time sp),
        set_from_meta ''description''
          (tag_or (find_meta_og_description sp) (find_meta_name_description sp))]
       [(''title'', PyStr []), (''author'', PyStr []), (''date'', PyStr []),
        (''description'', PyStr [])]"

text \<open>
  The body of each \<^verbatim>\<open>scrape_with_*\<close> method is its \<^verbatim>\<open>try\<close> block, which may raise; the
  method is the block under \<^verbatim>\<open>except Exception: return None\<close>.
\<close>

definition except_return_None :: "fault + 'a option \<Rightarrow> 'a option" where
  "except_return_None r = (case r of Inl e \<Rightarrow> None | Inr v \<Rightarrow> v)"

definition trafilatura_body :: "world \<Rightarrow> pystr \<Rightarrow> fault + pydict option" where
  "trafilatura_body w url =
     (case traf_fetch_url w url of
        Inl e \<Rightarrow> Inl e
      | Inr None \<Rightarrow> Inr None
      | Inr (Some downloaded) \<Rightarrow>
          if downloaded = [] then Inr None
          else
            (case traf_extract w downloaded of
               Inl e \<Rightarrow> Inl e
             | Inr None \<Rightarrow> Inr None
             | Inr (Some text) \<Rightarrow>
                 if text = [] then Inr None
                 else
                   (case traf_extract_metadata w downloaded of
                      Inl e \<Rightarrow> Inl e
                    | Inr metadata \<Rightarrow>
                        Inr (Some
                          [(''content'', PyStr (clean_text text)),
                           (''title'', getattr metadata ''title'' (PyStr [])),
                           (''author'', getattr metadata ''author'' (PyStr [])),
                           (''date'', getattr metadata ''date'' (PyStr [])),
                           (''description'', getattr metadata ''description'' (PyStr []))]))))"

definition scrape_with_trafilatura :: "world \<Rightarrow> pystr \<Rightarrow> pydict option" where
  "scrape_with_trafilatura w url = except_return_None (trafilatura_body w url)"

text \<open>\<^verbatim>\<open>response.raise_for_status()\<close> raises for a status from 400 to 599.\<close>

definition raise_for_status :: "response \<Rightarrow> fault + unit" where
  "raise_for_status r =
     (if 400 \<le> status_code r \<and> status_code r < 600 then Inl (HTTPError (status_code r))
      else Inr ())"

definition beautifulsoup_body :: "world \<Rightarrow> pystr \<Rightarrow> fault + pydict option" where
  "beautifulsoup_body w url =
     (case session_get w url of
        Inl e \<Rightarrow> Inl e
      | Inr resp \<Rightarrow>
          (case raise_for_status resp of
             Inl e \<Rightarrow> Inl e
           | Inr u \<Rightarrow>
               (case bs_parse w (body resp) of
                  Inl e \<Rightarrow> Inl e
                | Inr sp \<Rightarrow>
                    (let metadata = extract_metadata sp url;
                         paragraphs = find_all_p sp;
                         content = clean_text (py_join [10] paragraphs);
                         metadata = AList.update ''content'' (PyStr content) metadata
                     in if content \<noteq> [] then Inr (Some metadata) else Inr None))))"

definition scrape_with_beautifulsoup :: "world \<Rightarrow> pystr \<Rightarrow> pydict option" where
  "scrape_with_beautifulsoup w url = except_return_None (beautifulsoup_body w url)"

definition newspaper_body :: "world \<Rightarrow> pystr \<Rightarrow> fault + pydict option" where
  "newspaper_body w url =
     (case newspaper_article w url of
        Inl e \<Rightarrow> Inl e
      | Inr a \<Rightarrow>
          Inr (Some
            [(''content'', PyStr (clean_text (art_text a))),
             (''title'', PyStr (if art_title a \<noteq> [] then art_title a else [])),
             (''author'', PyStr (if art_authors a \<noteq> [] then py_join (ustr '', '') (art_authors a)
                                 else [])),
             (''date'', PyStr (case art_publish_date a of Some d \<Rightarrow> d | None \<Rightarrow> [])),
             (''description'', PyStr (if art_meta_description a \<noteq> [] then art_meta_description a
                                      else []))]))"

definition scrape_with_newspaper :: "world \<Rightarrow> pystr \<Rightarrow> pydict option" where
  "scrape_with_newspaper w url = except_return_None (newspaper_body w url)"

definition playwright_body :: "world \<Rightarrow> pystr \<Rightarrow> fault + pydict option" where
  "playwright_body w url =
     (case browser_content w url of
        Inl e \<Rightarrow> Inl e
      | Inr html \<Rightarrow>
          (case bs_parse w html of
             Inl e \<Rightarrow> Inl e
           | Inr sp \<Rightarrow>
               (let paragraphs = find_all_p sp;
                    text = py_join [10] paragraphs
                in if text \<noteq> [] then Inr (Some [(''content'', PyStr (clean_text text))])
                   else Inr None)))"

definition scrape_with_playwright :: "world \<Rightarrow> pystr \<Rightarrow> pydict option" where
  "scrape_with_playwright w url = except_return_None (playwright_body w url)"

section \<open>\<^verbatim>\<open>extract_article_content\<close>\<close>

datatype strategy = Trafilatura | BeautifulSoup | Newspaper | Playwright

fun run_method :: "world \<Rightarrow> strategy \<Rightarrow> pystr \<Rightarrow> pydict option" where
  "run_method w Trafilatura url = scrape_with_trafilatura w url"
| "run_method w BeautifulSoup url = scrape_with_beautifulsoup w url"
| "run_method w Newspaper url = scrape_with_newspaper w url"
| "run_method w Playwright url = scrape_with_playwright w url"

text \<open>The list the \<^verbatim>\<open>for\<close> loop runs over.\<close>

definition methods :: "strategy list" where
  "methods = [Trafilatura, BeautifulSoup, Newspaper, Playwright]"

text \<open>
  \<^verbatim>\<open>result and len(result.get('content', '')) > 50\<close>: \<^verbatim>\<open>None\<close> and the empty dictionary
  are falsy.
\<close>

definition accepted :: "pydict option \<Rightarrow> fault + bool" where
  "accepted result =
     (case result of
        None \<Rightarrow> Inr False
      | Some d \<Rightarrow>
          if d = [] then Inr False
          else (case py_len (dict_get d ''content'' (PyStr [])) of
                  Inl e \<Rightarrow> Inl e
                | Inr n \<Rightarrow> Inr (n > 50)))"

text \<open>
  The loop. The state is the variable \<^verbatim>\<open>result\<close> and the log of the calls made, a call
  being the method and the URL it was given. \<^verbatim>\<open>result\<close> is overwritten by every call and
  keeps the last value when the loop ends, by \<^verbatim>\<open>break\<close> or by running out of methods.
\<close>

type_synonym call = "strategy \<times> pystr"

fun cascade ::
  "world \<Rightarrow> strategy list \<Rightarrow> pystr \<Rightarrow> pydict option \<Rightarrow> call list
     \<Rightarrow> fault + (pydict option \<times> call list)" where
  "cascade w [] url result calls = Inr (result, calls)"
| "cascade w (m # ms) url result calls =
     (let result' = run_method w m url;
          calls' = calls @ [(m, url)]
      in case accepted result' of
           Inl e \<Rightarrow> Inl e
         | Inr True \<Rightarrow> Inr (result', calls')
         | Inr False \<Rightarrow> cascade w ms url result' calls')"

text \<open>\<^verbatim>\<open>not result or len(result.get('content', '')) < 20\<close>\<close>

definition rejected :: "pydict option \<Rightarrow> fault + bool" where
  "rejected result =
     (case result of
        None \<Rightarrow> Inr True
      | Some d \<Rightarrow>
          if d = [] then Inr True
          else (case py_len (dict_get d ''content'' (PyStr [])) of
                  Inl e \<Rightarrow> Inl e
                | Inr n \<Rightarrow> Inr (n < 20)))"

definition invalid_url_outcome :: pydict where
  "invalid_url_outcome =
     [(''success'', PyBool False),
      (''error'', PyStr (ustr ''Invalid URL format'')),
      (''content'', PyStr [])]"

definition exhausted_outcome :: pydict where
  "exhausted_outcome =
     [(''success'', PyBool False),
      (''error'', PyStr (ustr
         ''Unable to extract readable content. The site may use paywalls or advanced JS.'')),
      (''content'', PyStr [])]"

definition success_outcome :: "pydict \<Rightarrow> pydict" where
  "success_outcome result =
     [(''success'', PyBool True),
      (''error'', PyStr []),
      (''content'', dict_get result ''content'' (PyStr [])),
      (''title'', dict_get result ''title'' (PyStr [])),
      (''author'', dict_get result ''author'' (PyStr [])),
      (''date'', dict_get result ''date'' (PyStr [])),
      (''description'', dict_get result ''description'' (PyStr []))]"

text \<open>\<^verbatim>\<open>if not url.startswith(('http://', 'https://')): url = 'https://' + url\<close>\<close>

definition with_scheme :: "pystr \<Rightarrow> pystr" where
  "with_scheme url =
     (if \<not> (startswith url (ustr ''http://'') \<or> startswith url (ustr ''https://''))
      then ustr ''https://'' @ url
      else url)"

text \<open>
  The function returns the outcome dictionary; the model returns with it the log of the
  calls to the methods. \<open>Inl\<close> is an exception leaving the function.
\<close>

definition extract_article_content :: "world \<Rightarrow> pystr \<Rightarrow> fault + (pydict \<times> call list)" where
  "extract_article_content w url0 =
     (if \<not> is_valid_url w url0 then Inr (invalid_url_outcome, [])
      else
        (let url = with_scheme url0
         in case cascade w methods url None [] of
              Inl e \<Rightarrow> Inl e
            | Inr (result, calls) \<Rightarrow>
                (case rejected result of
                   Inl e \<Rightarrow> Inl e
                 | Inr True \<Rightarrow> Inr (exhausted_outcome, calls)
                 | Inr False \<Rightarrow>
                     (case result of
                        None \<Rightarrow> Inl AttributeError
                      | Some d \<Rightarrow> Inr (success_outcome d, calls)))))"

section \<open>Notions used to state the properties\<close>

text \<open>
  The length of the content of a result after trimming, and the acceptance test of the
  cascade as the specification words it: a result that is not null, with more than 50
  characters of trimmed content.
\<close>

definition trimmed_content_length :: "pydict \<Rightarrow> nat" where
  "trimmed_content_length d =
     (case dict_get d ''content'' (PyStr []) of
        PyStr c \<Rightarrow> length (py_strip c)
      | _ \<Rightarrow> 0)"

definition passes_threshold :: "pydict option \<Rightarrow> bool" where
  "passes_threshold r = (case r of None \<Rightarrow> False | Some d \<Rightarrow> 50 < trimmed_content_length d)"

text \<open>
  The method whose result the loop ends with, and the calls the loop makes: the methods up
  to the first whose result passes the threshold, all of them when none does.
\<close>

definition final_method :: "world \<Rightarrow> pystr \<Rightarrow> strategy" where
  "final_method w url =
     (let n = length (takeWhile (\<lambda>m. \<not> passes_threshold (run_method w m url)) methods)
      in if n < length methods then methods ! n else last methods)"

definition calls_made :: "world \<Rightarrow> pystr \<Rightarrow> call list" where
  "calls_made w url =
     (let n = length (takeWhile (\<lambda>m. \<not> passes_threshold (run_method w m url)) methods)
      in map (\<lambda>m. (m, url)) (take (Suc n) methods))"

text \<open>
  A text on which \<open>sub_blank\<close> has nothing to do: wherever the pattern matches, the
  match is two adjacent newlines.
\<close>

fun blank_nf :: "pystr \<Rightarrow> bool" where
  "blank_nf [] = True"
| "blank_nf (c # cs) =
     ((if c = 10 then (case skip_blank cs of None \<Rightarrow> True | Some r \<Rightarrow> cs = 10 # r) else True)
      \<and> blank_nf cs)"

text \<open>A text with no two adjacent spaces.\<close>

fun single_spaced :: "pystr \<Rightarrow> bool" where
  "single_spaced [] = True"
| "single_spaced [c] = True"
| "single_spaced (c # d # cs) = ((c \<noteq> 32 \<or> d \<noteq> 32) \<and> single_spaced (d # cs))"

section \<open>Concrete worlds\<close>

text \<open>
  A reference \<open>urlparse\<close> for the concrete runs below: the scheme and the netloc as
  \<^verbatim>\<open>urllib.parse.urlsplit\<close> of CPython 3.11 and 3.12 computes them. Leading C0 control
  characters and spaces are dropped, tab, carriage return and newline are removed, the
  text before the first colon is the scheme when it starts with an ASCII letter and
  consists of scheme characters, and the netloc is what follows \<^verbatim>\<open>//\<close> up to the first of
  \<^verbatim>\<open>/ ? #\<close>. A netloc with one square bracket and not the other raises \<^verbatim>\<open>ValueError\<close>.
  The checks of the library on the text inside the brackets and on a netloc that is not
  ASCII are left out; the URLs evaluated below have neither.
\<close>

definition ascii_alpha :: "codepoint \<Rightarrow> bool" where
  "ascii_alpha c = ((65 \<le> c \<and> c \<le> 90) \<or> (97 \<le> c \<and> c \<le> 122))"

definition scheme_char :: "codepoint \<Rightarrow> bool" where
  "scheme_char c = (ascii_alpha c \<or> (48 \<le> c \<and> c \<le> 57) \<or> c = 43 \<or> c = 45 \<or> c = 46)"

definition ascii_lower :: "codepoint \<Rightarrow> codepoint" where
  "ascii_lower c = (if 65 \<le> c \<and> c \<le> 90 then c + 32 else c)"

definition urlparse_ref :: "pystr \<Rightarrow> fault + (pystr \<times> pystr)" where
  "urlparse_ref url0 =
     (let url1 = dropWhile (\<lambda>c. c \<le> 32) url0;
          url2 = filter (\<lambda>c. c \<notin> {9, 10, 13}) url1;
          pre = takeWhile (\<lambda>c. c \<noteq> 58) url2;
          found = (pre \<noteq> [] \<and> length pre < length url2 \<and> ascii_alpha (hd pre)
                   \<and> list_all scheme_char pre);
          scheme = (if found then map ascii_lower pre else []);
          rest = (if found then drop (Suc (length pre)) url2 else url2);
          netloc = (if take 2 rest = [47, 47]
                    then takeWhile (\<lambda>c. c \<notin> {47, 63, 35}) (drop 2 rest) else [])
      in if (91 \<in> set netloc) \<noteq> (93 \<in> set netloc) then Inl ValueError
         else Inr (scheme, netloc))"

text \<open>A world in which no strategy gets anything: every fetch fails.\<close>

definition offline_world :: world where
  "offline_world =
     \<lparr>urlparse = urlparse_ref,
      traf_fetch_url = (\<lambda>u. Inr None),
      traf_extract = (\<lambda>d. Inr None),
      traf_extract_metadata = (\<lambda>d. Inr None),
      session_get = (\<lambda>u. Inl NetworkTimeout),
      bs_parse = (\<lambda>b. Inl ParseError),
      newspaper_article = (\<lambda>u. Inl (OtherException ''ArticleException'')),
      browser_content = (\<lambda>u. Inl BrowserLaunchFailure)\<rparr>"

text \<open>A page whose only paragraph is the given text, with no title and no \<^verbatim>\<open>meta\<close> tag.\<close>

definition one_paragraph :: "pystr \<Rightarrow> soup" where
  "one_paragraph t =
     \<lparr>find_title = None, find_meta_og_title = None, find_meta_name_title = None,
      find_h1 = None, find_meta_name_author = None, find_meta_published_time = None,
      find_meta_og_description = None, find_meta_name_description = None,
      find_all_p = [t]\<rparr>"

text \<open>
  A world in which only the browser gets the page: the static fetches fail, the rendered
  page has one paragraph of the given text.
\<close>

definition rendered_only_world :: "pystr \<Rightarrow> world" where
  "rendered_only_world t =
     offline_world
       \<lparr>bs_parse := (\<lambda>b. Inr (one_paragraph t)),
        browser_content := (\<lambda>u. Inr (ustr ''<p>''))\<rparr>"

text \<open>
  A world in which only the HTTP session gets the page, which has one paragraph of the
  given text.
\<close>

definition static_only_world :: "pystr \<Rightarrow> world" where
  "static_only_world t =
     offline_world
       \<lparr>session_get := (\<lambda>u. Inr \<lparr>status_code = 200, body = ustr ''<p>''\<rparr>),
        bs_parse := (\<lambda>b. Inr (one_paragraph t))\<rparr>"

text \<open>
  A world in which trafilatura extracts the given text from the page and answers a
  metadata object with the given attributes.
\<close>

definition trafilatura_world :: "pystr \<Rightarrow> pyobj \<Rightarrow> world" where
  "trafilatura_world t attrs =
     offline_world
       \<lparr>traf_fetch_url := (\<lambda>u. Inr (Some (ustr ''<html>''))),
        traf_extract := (\<lambda>d. Inr (Some t)),
        traf_extract_metadata := (\<lambda>d. Inr (Some attrs))\<rparr>"

definition example_url :: pystr where
  "example_url = ustr ''https://example.com/article''"

definition schemeless_url :: pystr where
  "schemeless_url = ustr ''example.com/article''"




text \<open>A text of 37 characters and one of 62.\<close>

definition short_text :: pystr where
  "short_text = ustr ''Subscribe now to read the full story.''"

definition long_text :: pystr where
  "long_text = ustr ''The quick brown fox jumps over the lazy dog by the river bank.''"

text \<open>The text of 62 characters with whitespace around it.\<close>

definition padded_text :: pystr where
  "padded_text = [32, 10, 32] @ long_text @ [32, 9, 10]"

text \<open>
  The attributes of a metadata object of trafilatura for a page with a title and nothing
  else: the attributes exist, with the value \<^verbatim>\<open>None\<close> where nothing was found.
\<close>

definition title_only_document :: pyobj where
  "title_only_document =
     [(''title'', PyStr (ustr ''Fox'')), (''author'', PyNone), (''date'', PyNone),
      (''description'', PyNone)]"

section \<open>The content normalizer\<close>

lemma is_space_newline: "is_space 10"
  by (simp add: is_space_def)

lemma is_space_space: "is_space 32"
  by (simp add: is_space_def)

lemma skip_blank_after: "skip_blank cs = Some r \<Longrightarrow> skip_blank r = None"
  by (induction cs arbitrary: r) (auto split: if_splits option.splits)

lemma skip_blank_sub_blank: "skip_blank x = None \<Longrightarrow> skip_blank (sub_blank x) = None"
  by (induction x) (auto simp: is_space_newline split: if_splits option.splits)

lemma blank_nf_fix: "blank_nf x \<Longrightarrow> sub_blank x = x"
  by (induction x rule: sub_blank.induct) (auto split: option.splits)

lemma blank_nf_sub_blank: "blank_nf (sub_blank x)"
  by (induction x rule: sub_blank.induct)
     (auto split: option.splits simp: is_space_newline skip_blank_sub_blank dest: skip_blank_after)

lemma skip_blank_dropWhile_space: "skip_blank (dropWhile (\<lambda>d. d = 32) cs) = skip_blank cs"
  by (induction cs) (auto simp: is_space_space split: option.splits)

lemma skip_blank_sub_spaces: "skip_blank (sub_spaces cs) = map_option sub_spaces (skip_blank cs)"
  by (induction cs rule: sub_spaces.induct)
     (auto split: option.splits simp: is_space_space skip_blank_dropWhile_space)

lemma blank_nf_dropWhile: "blank_nf x \<Longrightarrow> blank_nf (dropWhile P x)"
  by (induction x) auto

lemma blank_nf_sub_spaces: "blank_nf x \<Longrightarrow> blank_nf (sub_spaces x)"
  by (induction x rule: sub_spaces.induct)
     (auto split: option.splits simp: skip_blank_sub_spaces blank_nf_dropWhile)

lemma single_spaced_fix: "single_spaced x \<Longrightarrow> sub_spaces x = x"
  by (induction x rule: single_spaced.induct) auto

lemma single_spaced_dropWhile: "single_spaced x \<Longrightarrow> single_spaced (dropWhile P x)"
  by (induction x rule: single_spaced.induct) auto

lemma single_spaced_Cons:
  "single_spaced (c # x) \<longleftrightarrow> (c = 32 \<longrightarrow> x = [] \<or> hd x \<noteq> 32) \<and> single_spaced x"
  by (cases x) auto

lemma hd_sub_spaces: "x \<noteq> [] \<Longrightarrow> sub_spaces x \<noteq> [] \<and> hd (sub_spaces x) = hd x"
  by (cases x) auto

lemma single_spaced_sub_spaces: "single_spaced (sub_spaces x)"
proof (induction x rule: sub_spaces.induct)
  case 1
  show ?case by simp
next
  case (2 c cs)
  show ?case
  proof (cases "c = 32")
    case True
    let ?r = "dropWhile (\<lambda>d. d = 32) cs"
    have "sub_spaces ?r = [] \<or> hd (sub_spaces ?r) \<noteq> 32"
    proof (cases "?r = []")
      case True
      show ?thesis unfolding True by simp
    next
      case False
      then show ?thesis
        using hd_dropWhile [OF False] hd_sub_spaces [OF False] by simp
    qed
    with True 2 show ?thesis
      by (simp add: single_spaced_Cons)
  next
    case False
    with 2 show ?thesis
      by (simp add: single_spaced_Cons)
  qed
qed

lemma py_rstrip_Nil: "py_rstrip [] = []"
  by (simp add: py_rstrip_def)

lemma py_rstrip_Cons:
  "py_rstrip (c # cs) = (if py_rstrip cs = [] \<and> is_space c then [] else c # py_rstrip cs)"
  by (auto simp: py_rstrip_def dropWhile_append)

lemma skip_blank_rstrip:
  "py_rstrip cs \<noteq> [] \<Longrightarrow> skip_blank (py_rstrip cs) = map_option py_rstrip (skip_blank cs)"
  by (induction cs) (auto simp: py_rstrip_Nil py_rstrip_Cons split: option.splits if_splits)

lemma blank_nf_rstrip: "blank_nf x \<Longrightarrow> blank_nf (py_rstrip x)"
  by (induction x)
     (auto simp: py_rstrip_Nil py_rstrip_Cons skip_blank_rstrip is_space_newline
           split: option.splits if_splits)

lemma single_spaced_rstrip: "single_spaced x \<Longrightarrow> single_spaced (py_rstrip x)"
  by (induction x rule: single_spaced.induct) (auto simp: py_rstrip_Nil py_rstrip_Cons)

lemma py_rstrip_last: "py_rstrip x = [] \<or> \<not> is_space (last (py_rstrip x))"
  by (induction x) (auto simp: py_rstrip_Nil py_rstrip_Cons)

lemma py_rstrip_id: "x \<noteq> [] \<Longrightarrow> \<not> is_space (last x) \<Longrightarrow> py_rstrip x = x"
  by (induction x) (auto simp: py_rstrip_Nil py_rstrip_Cons split: if_splits)

lemma py_strip_Nil: "py_strip [] = []"
  by (simp add: py_strip_def py_lstrip_def py_rstrip_def)

lemma py_strip_strip: "py_strip (py_strip x) = py_strip x"
proof (cases "py_strip x = []")
  case True
  with py_strip_Nil show ?thesis by simp
next
  case False
  let ?a = "py_rstrip x"
  have ne: "dropWhile is_space ?a \<noteq> []"
    using False by (simp add: py_strip_def py_lstrip_def)
  then have ane: "?a \<noteq> []" by auto
  have "last (dropWhile is_space ?a) = last ?a"
    using ne by (metis last_appendR takeWhile_dropWhile_id)
  moreover have "\<not> is_space (last ?a)"
    using py_rstrip_last [of x] ane by simp
  ultimately have "py_rstrip (dropWhile is_space ?a) = dropWhile is_space ?a"
    using ne by (simp add: py_rstrip_id)
  moreover have "dropWhile is_space (dropWhile is_space ?a) = dropWhile is_space ?a"
    using hd_dropWhile [OF ne] ne by (cases "dropWhile is_space ?a") auto
  ultimately show ?thesis
    by (simp add: py_strip_def py_lstrip_def)
qed

lemma clean_text_stripped: "py_strip (clean_text t) = clean_text t"
  by (simp add: clean_text_def py_strip_strip py_strip_Nil)

lemma clean_text_normal:
  "blank_nf (clean_text t) \<and> single_spaced (clean_text t)"
  by (simp add: clean_text_def py_strip_def py_lstrip_def blank_nf_dropWhile blank_nf_rstrip
      blank_nf_sub_spaces blank_nf_sub_blank single_spaced_dropWhile single_spaced_rstrip
      single_spaced_sub_spaces)

lemma clean_text_fix:
  "sub_blank y = y \<Longrightarrow> sub_spaces y = y \<Longrightarrow> py_strip y = y \<Longrightarrow> clean_text y = y"
  by (simp add: clean_text_def)

text \<open>
  C7: \<open>clean_text\<close> is idempotent: cleaning a cleaned text changes nothing, for every
  text. It maps \<^verbatim>\<open>"a\n\n\n\nb"\<close> to \<^verbatim>\<open>"a\n\nb"\<close> and \<^verbatim>\<open>"a    b"\<close> to \<^verbatim>\<open>"a b"\<close>
  (code points: a 97, b 98, newline 10, space 32).
\<close>

theorem clean_text_idempotent:
  "clean_text (clean_text t) = clean_text t
   \<and> clean_text [97, 10, 10, 10, 10, 98] = [97, 10, 10, 98]
   \<and> clean_text [97, 32, 32, 32, 32, 98] = [97, 32, 98]"
proof -
  let ?y = "clean_text t"
  have "sub_blank ?y = ?y" and "sub_spaces ?y = ?y"
    using clean_text_normal [of t] by (simp_all add: blank_nf_fix single_spaced_fix)
  then have "clean_text ?y = ?y"
    using clean_text_stripped [of t] by (rule clean_text_fix)
  moreover have "clean_text [97, 10, 10, 10, 10, 98] = [97, 10, 10, 98]"
    by (simp add: clean_text_def py_strip_def py_lstrip_def py_rstrip_def is_space_def)
  moreover have "clean_text [97, 32, 32, 32, 32, 98] = [97, 32, 98]"
    by (simp add: clean_text_def py_strip_def py_lstrip_def py_rstrip_def is_space_def)
  ultimately show ?thesis by simp
qed

text \<open>
  The text \<^verbatim>\<open>"  a \n \t\n\n  b   c \n"\<close> is cleaned to \<^verbatim>\<open>"a \n\n b c"\<close>, and cleaning that
  again gives the same.
\<close>

theorem clean_text_idempotent_witness:
  "clean_text [32, 32, 97, 32, 10, 32, 9, 10, 10, 32, 32, 98, 32, 32, 32, 99, 32, 10]
     = [97, 32, 10, 10, 32, 98, 32, 99]
   \<and> clean_text [97, 32, 10, 10, 32, 98, 32, 99] = [97, 32, 10, 10, 32, 98, 32, 99]"
proof -
  let ?t = "[32, 32, 97, 32, 10, 32, 9, 10, 10, 32, 32, 98, 32, 32, 32, 99, 32, 10] :: pystr"
  have c: "clean_text ?t = [97, 32, 10, 10, 32, 98, 32, 99]"
    by (simp add: clean_text_def py_strip_def py_lstrip_def py_rstrip_def is_space_def)
  from clean_text_idempotent [of ?t] have "clean_text (clean_text ?t) = clean_text ?t"
    by (rule conjunct1)
  with c show ?thesis by simp
qed

section \<open>The strategies and the cascade\<close>

lemma update_not_Nil: "AList.update k v al \<noteq> []"
  by (cases al) auto

lemma map_of_update_same: "map_of (AList.update k v al) k = Some v"
  by (simp add: update_conv')

lemma trafilatura_content:
  "scrape_with_trafilatura w url = Some d \<Longrightarrow>
     d \<noteq> [] \<and> (\<exists>t. map_of d ''content'' = Some (PyStr (clean_text t)))"
  by (auto simp: scrape_with_trafilatura_def except_return_None_def trafilatura_body_def
        split: sum.splits option.splits if_splits)

lemma beautifulsoup_content:
  "scrape_with_beautifulsoup w url = Some d \<Longrightarrow>
     d \<noteq> [] \<and> (\<exists>t. map_of d ''content'' = Some (PyStr (clean_text t)))"
  by (auto simp: scrape_with_beautifulsoup_def except_return_None_def beautifulsoup_body_def
        Let_def update_not_Nil map_of_update_same
        split: sum.splits option.splits if_splits)

lemma newspaper_content:
  "scrape_with_newspaper w url = Some d \<Longrightarrow>
     d \<noteq> [] \<and> (\<exists>t. map_of d ''content'' = Some (PyStr (clean_text t)))"
  by (auto simp: scrape_with_newspaper_def except_return_None_def newspaper_body_def
        split: sum.splits option.splits if_splits)

lemma playwright_content:
  "scrape_with_playwright w url = Some d \<Longrightarrow>
     d \<noteq> [] \<and> (\<exists>t. map_of d ''content'' = Some (PyStr (clean_text t)))"
  by (auto simp: scrape_with_playwright_def except_return_None_def playwright_body_def
        Let_def split: sum.splits option.splits if_splits)

lemma run_method_content:
  "run_method w m url = Some d \<Longrightarrow>
     d \<noteq> [] \<and> (\<exists>t. map_of d ''content'' = Some (PyStr (clean_text t)))"
  by (cases m)
     (simp_all add: trafilatura_content beautifulsoup_content newspaper_content
        playwright_content)

lemma run_method_trimmed:
  assumes "run_method w m url = Some d"
  obtains c where "d \<noteq> []" and "map_of d ''content'' = Some (PyStr c)"
    and "py_strip c = c" and "clean_text c = c" and "trimmed_content_length d = length c"
proof -
  from run_method_content [OF assms] obtain t
    where d: "d \<noteq> []" and c: "map_of d ''content'' = Some (PyStr (clean_text t))" by blast
  have "py_strip (clean_text t) = clean_text t"
    by (rule clean_text_stripped)
  moreover have "clean_text (clean_text t) = clean_text t"
    using clean_text_normal [of t] clean_text_stripped [of t]
    by (simp add: clean_text_fix blank_nf_fix single_spaced_fix)
  moreover have "trimmed_content_length d = length (clean_text t)"
    using c by (simp add: trimmed_content_length_def dict_get_def clean_text_stripped)
  ultimately show thesis using d c that by blast
qed

lemma accepted_run_method:
  "accepted (run_method w m url) = Inr (passes_threshold (run_method w m url))"
proof (cases "run_method w m url")
  case None
  then show ?thesis by (simp add: accepted_def passes_threshold_def)
next
  case (Some d)
  from run_method_trimmed [OF Some] obtain c
    where "d \<noteq> []" "map_of d ''content'' = Some (PyStr c)" "trimmed_content_length d = length c"
    by metis
  with Some show ?thesis
    by (simp add: accepted_def passes_threshold_def dict_get_def)
qed

lemma rejected_run_method:
  "rejected (run_method w m url) =
     Inr (case run_method w m url of None \<Rightarrow> True | Some d \<Rightarrow> trimmed_content_length d < 20)"
proof (cases "run_method w m url")
  case None
  then show ?thesis by (simp add: rejected_def)
next
  case (Some d)
  from run_method_trimmed [OF Some] obtain c
    where "d \<noteq> []" "map_of d ''content'' = Some (PyStr c)" "trimmed_content_length d = length c"
    by metis
  with Some show ?thesis
    by (simp add: rejected_def dict_get_def)
qed

lemma cascade_run:
  "cascade w ms url r calls =
     (let n = length (takeWhile (\<lambda>m. \<not> passes_threshold (run_method w m url)) ms)
      in Inr (if n < length ms then run_method w (ms ! n) url
              else if ms = [] then r else run_method w (last ms) url,
              calls @ map (\<lambda>m. (m, url)) (take (Suc n) ms)))"
  by (induction ms arbitrary: r calls) (auto simp: Let_def accepted_run_method)

lemma methods_not_Nil: "methods \<noteq> []"
  by (simp add: methods_def)

lemma extract_valid:
  assumes "is_valid_url w url0"
  shows "extract_article_content w url0 =
     Inr (case run_method w (final_method w (with_scheme url0)) (with_scheme url0) of
            None \<Rightarrow> exhausted_outcome
          | Some d \<Rightarrow> if trimmed_content_length d < 20 then exhausted_outcome
                      else success_outcome d,
          calls_made w (with_scheme url0))"
proof -
  let ?url = "with_scheme url0"
  have c: "cascade w methods ?url None [] =
      Inr (run_method w (final_method w ?url) ?url, calls_made w ?url)"
    by (simp add: cascade_run final_method_def calls_made_def Let_def methods_not_Nil)
  show ?thesis
    using assms
    by (simp add: extract_article_content_def Let_def c rejected_run_method
          split: option.splits)
qed

lemma extract_invalid:
  "\<not> is_valid_url w url0 \<Longrightarrow> extract_article_content w url0 = Inr (invalid_url_outcome, [])"
  by (simp add: extract_article_content_def)

section \<open>Concrete runs\<close>

lemma long_text_clean: "clean_text long_text = long_text"
  by (simp add: long_text_def ustr_def clean_text_def py_strip_def py_lstrip_def py_rstrip_def
        is_space_def)

lemma short_text_clean: "clean_text short_text = short_text"
  by (simp add: short_text_def ustr_def clean_text_def py_strip_def py_lstrip_def py_rstrip_def
        is_space_def)

lemma long_text_length: "length long_text = 62"
  by (simp add: long_text_def ustr_def)

lemma short_text_length: "length short_text = 37"
  by (simp add: short_text_def ustr_def)

lemma urlparse_example: "urlparse_ref example_url = Inr (ustr ''https'', ustr ''example.com'')"
  by code_simp

lemma urlparse_schemeless: "urlparse_ref schemeless_url = Inr ([], [])"
  by code_simp

lemma urlparse_empty: "urlparse_ref [] = Inr ([], [])"
  by code_simp

lemma with_scheme_example: "with_scheme example_url = example_url"
  by code_simp

lemma with_scheme_schemeless: "with_scheme schemeless_url = example_url"
  by code_simp

lemma valid_example: "urlparse w = urlparse_ref \<Longrightarrow> is_valid_url w example_url"
  by (simp add: is_valid_url_def urlparse_example ustr_def)

lemma urlparse_worlds:
  "urlparse offline_world = urlparse_ref"
  "urlparse (static_only_world t) = urlparse_ref"
  "urlparse (rendered_only_world t) = urlparse_ref"
  "urlparse (trafilatura_world t attrs) = urlparse_ref"
  by (simp_all add: offline_world_def static_only_world_def rendered_only_world_def
        trafilatura_world_def)

lemma offline_methods: "run_method offline_world m url = None"
  by (cases m)
     (simp_all add: offline_world_def scrape_with_trafilatura_def trafilatura_body_def
        scrape_with_beautifulsoup_def beautifulsoup_body_def scrape_with_newspaper_def
        newspaper_body_def scrape_with_playwright_def playwright_body_def
        except_return_None_def)

lemma extract_metadata_bare:
  "extract_metadata (one_paragraph t) url =
     [(''title'', PyStr []), (''author'', PyStr []), (''date'', PyStr []),
      (''description'', PyStr [])]"
  by (simp add: extract_metadata_def one_paragraph_def set_from_meta_def tag_or_def)

lemma static_only_methods:
  "scrape_with_trafilatura (static_only_world t) url = None"
  "scrape_with_beautifulsoup (static_only_world t) url =
     (if clean_text t \<noteq> []
      then Some [(''title'', PyStr []), (''author'', PyStr []), (''date'', PyStr []),
                 (''description'', PyStr []), (''content'', PyStr (clean_text t))]
      else None)"
  "scrape_with_newspaper (static_only_world t) url = None"
  "scrape_with_playwright (static_only_world t) url = None"
  by (simp_all add: static_only_world_def offline_world_def scrape_with_trafilatura_def
        trafilatura_body_def scrape_with_beautifulsoup_def beautifulsoup_body_def
        scrape_with_newspaper_def newspaper_body_def scrape_with_playwright_def
        playwright_body_def except_return_None_def raise_for_status_def extract_metadata_bare
        Let_def)
     (simp add: one_paragraph_def)

lemma rendered_only_methods:
  "scrape_with_trafilatura (rendered_only_world t) url = None"
  "scrape_with_beautifulsoup (rendered_only_world t) url = None"
  "scrape_with_newspaper (rendered_only_world t) url = None"
  "scrape_with_playwright (rendered_only_world t) url =
     (if t \<noteq> [] then Some [(''content'', PyStr (clean_text t))] else None)"
  by (simp_all add: rendered_only_world_def offline_world_def scrape_with_trafilatura_def
        trafilatura_body_def scrape_with_beautifulsoup_def beautifulsoup_body_def
        scrape_with_newspaper_def newspaper_body_def scrape_with_playwright_def
        playwright_body_def except_return_None_def one_paragraph_def Let_def)

lemma trafilatura_method:
  "scrape_with_trafilatura (trafilatura_world t attrs) url =
     (if t \<noteq> []
      then Some [(''content'', PyStr (clean_text t)),
                 (''title'', getattr (Some attrs) ''title'' (PyStr [])),
                 (''author'', getattr (Some attrs) ''author'' (PyStr [])),
                 (''date'', getattr (Some attrs) ''date'' (PyStr [])),
                 (''description'', getattr (Some attrs) ''description'' (PyStr []))]
      else None)"
  by (simp add: trafilatura_world_def offline_world_def scrape_with_trafilatura_def
        trafilatura_body_def except_return_None_def ustr_def)

lemma long_text_not_Nil: "long_text \<noteq> []"
  using long_text_length by auto

lemma short_text_not_Nil: "short_text \<noteq> []"
  using short_text_length by auto

lemma long_text_stripped: "py_strip long_text = long_text"
  using clean_text_stripped [of long_text] by (simp add: long_text_clean)

lemma short_text_stripped: "py_strip short_text = short_text"
  using clean_text_stripped [of short_text] by (simp add: short_text_clean)

lemma content_length_simps:
  "trimmed_content_length [(''content'', PyStr t)] = length (py_strip t)"
  "trimmed_content_length
     [(''title'', a), (''author'', b), (''date'', c), (''description'', d),
      (''content'', PyStr t)] = length (py_strip t)"
  "trimmed_content_length
     [(''content'', PyStr t), (''title'', a), (''author'', b), (''date'', c),
      (''description'', d)] = length (py_strip t)"
  by (simp_all add: trimmed_content_length_def dict_get_def)

section \<open>The cascade controller\<close>

text \<open>
  C1: for every URL that passes validation, the methods are called in the order
  trafilatura, BeautifulSoup, newspaper, playwright, each with the URL after the scheme
  step, and the calls made are exactly the methods up to and including the first whose
  result is not null with more than 50 characters of trimmed content; no later method is
  called, and the outcome is the success built from that result.
\<close>

theorem cascade_order_and_halt:
  assumes "is_valid_url w url0"
  shows "methods = [Trafilatura, BeautifulSoup, Newspaper, Playwright]
    \<and> (let url = with_scheme url0;
            n = length (takeWhile (\<lambda>m. \<not> passes_threshold (run_method w m url)) methods)
        in \<exists>out. extract_article_content w url0
                    = Inr (out, map (\<lambda>m. (m, url)) (take (Suc n) methods))
             \<and> (n < length methods \<longrightarrow>
                  (\<exists>d. run_method w (methods ! n) url = Some d \<and> out = success_outcome d)))"
proof -
  let ?url = "with_scheme url0"
  let ?n = "length (takeWhile (\<lambda>m. \<not> passes_threshold (run_method w m ?url)) methods)"
  have "?n < length methods \<Longrightarrow> passes_threshold (run_method w (methods ! ?n) ?url)"
    using nth_length_takeWhile [of "\<lambda>m. \<not> passes_threshold (run_method w m ?url)" methods]
    by simp
  then have "?n < length methods \<Longrightarrow>
      \<exists>d. run_method w (methods ! ?n) ?url = Some d \<and> \<not> trimmed_content_length d < 20"
    by (auto simp: passes_threshold_def split: option.splits)
  then show ?thesis
    using extract_valid [OF assms]
    by (auto simp: Let_def final_method_def calls_made_def methods_def)
qed

text \<open>
  A run in which trafilatura gets nothing and BeautifulSoup gets 62 characters: two calls,
  in that order, and none to newspaper or playwright.
\<close>

theorem cascade_order_and_halt_witness:
  "is_valid_url (static_only_world long_text) example_url
   \<and> \<not> passes_threshold (run_method (static_only_world long_text) Trafilatura example_url)
   \<and> passes_threshold (run_method (static_only_world long_text) BeautifulSoup example_url)
   \<and> (\<exists>out. extract_article_content (static_only_world long_text) example_url
          = Inr (out, [(Trafilatura, example_url), (BeautifulSoup, example_url)]))"
proof -
  let ?w = "static_only_world long_text"
  have v: "is_valid_url ?w example_url"
    by (simp add: valid_example urlparse_worlds)
  have t: "\<not> passes_threshold (run_method ?w Trafilatura example_url)"
    by (simp add: static_only_methods passes_threshold_def)
  have b: "passes_threshold (run_method ?w BeautifulSoup example_url)"
    by (simp add: static_only_methods passes_threshold_def content_length_simps
          long_text_clean long_text_stripped long_text_length long_text_not_Nil)
  have n: "length (takeWhile (\<lambda>m. \<not> passes_threshold (run_method ?w m example_url)) methods) = 1"
    using t b by (simp add: methods_def)
  from cascade_order_and_halt [OF v] show ?thesis
    using v t b by (auto simp: with_scheme_example n Let_def methods_def)
qed

text \<open>
  Against C2 as stated: a run in which exactly one strategy returns content, of trimmed
  length 37, and every other strategy returns null. The one strategy is the last, so the
  variable \<^verbatim>\<open>result\<close> still holds its result after the loop, the floor of 20 is what
  decides, and the outcome is a success.
\<close>

theorem floor_reached_by_last_strategy:
  "run_method (rendered_only_world short_text) Trafilatura example_url = None
   \<and> run_method (rendered_only_world short_text) BeautifulSoup example_url = None
   \<and> run_method (rendered_only_world short_text) Newspaper example_url = None
   \<and> run_method (rendered_only_world short_text) Playwright example_url
       = Some [(''content'', PyStr short_text)]
   \<and> trimmed_content_length [(''content'', PyStr short_text)] = 37
   \<and> extract_article_content (rendered_only_world short_text) example_url
       = Inr ([(''success'', PyBool True), (''error'', PyStr []),
               (''content'', PyStr short_text), (''title'', PyStr []), (''author'', PyStr []),
               (''date'', PyStr []), (''description'', PyStr [])],
              [(Trafilatura, example_url), (BeautifulSoup, example_url),
               (Newspaper, example_url), (Playwright, example_url)])"
proof -
  let ?w = "rendered_only_world short_text"
  have v: "is_valid_url ?w example_url"
    by (simp add: valid_example urlparse_worlds)
  have p: "scrape_with_playwright ?w example_url = Some [(''content'', PyStr short_text)]"
    by (simp add: rendered_only_methods short_text_clean short_text_not_Nil)
  have l: "trimmed_content_length [(''content'', PyStr short_text)] = 37"
    by (simp add: content_length_simps short_text_stripped short_text_length)
  have f: "final_method ?w example_url = Playwright"
    by (simp add: final_method_def methods_def rendered_only_methods(1-3) p
          passes_threshold_def l)
  have c: "calls_made ?w example_url =
      [(Trafilatura, example_url), (BeautifulSoup, example_url),
       (Newspaper, example_url), (Playwright, example_url)]"
    by (simp add: calls_made_def methods_def rendered_only_methods(1-3) p
          passes_threshold_def l)
  have "extract_article_content ?w example_url =
      Inr (success_outcome [(''content'', PyStr short_text)],
           [(Trafilatura, example_url), (BeautifulSoup, example_url),
            (Newspaper, example_url), (Playwright, example_url)])"
    by (simp add: extract_valid [OF v] with_scheme_example f c p l)
  then show ?thesis
    using p l by (simp add: rendered_only_methods(1-3) success_outcome_def dict_get_def)
qed

text \<open>
  C2, amended: when no strategy's result passes the threshold of 50, every method is
  called and the outcome is decided by the result of the last one, playwright, alone:
  failure when it is null or has fewer than 20 characters of content, success with that
  content otherwise. So a single result with trimmed length in (20, 50] is rejected when
  it comes from one of the first three strategies and the others return null, and the
  floor of 20 is reached by the results of the last strategy.
\<close>

theorem sub_threshold_outcome:
  assumes "is_valid_url w url0"
    and "\<forall>m\<in>set methods. \<not> passes_threshold (run_method w m (with_scheme url0))"
  shows "extract_article_content w url0 =
     Inr (case run_method w Playwright (with_scheme url0) of
            None \<Rightarrow> exhausted_outcome
          | Some d \<Rightarrow> if trimmed_content_length d < 20 then exhausted_outcome
                      else success_outcome d,
          map (\<lambda>m. (m, with_scheme url0)) methods)"
proof -
  let ?url = "with_scheme url0"
  have tw: "takeWhile (\<lambda>m. \<not> passes_threshold (run_method w m ?url)) methods = methods"
    using assms(2) by (simp add: takeWhile_eq_all_conv)
  have "final_method w ?url = Playwright"
    unfolding final_method_def Let_def tw by (simp add: methods_def)
  moreover have "calls_made w ?url = map (\<lambda>m. (m, ?url)) methods"
    unfolding calls_made_def Let_def tw by simp
  ultimately show ?thesis
    using extract_valid [OF assms(1)] by simp
qed

text \<open>
  A run in which BeautifulSoup alone returns content, of trimmed length 37: failure.
\<close>

theorem sub_threshold_outcome_witness:
  "is_valid_url (static_only_world short_text) example_url
   \<and> run_method (static_only_world short_text) Trafilatura example_url = None
   \<and> trimmed_content_length
        [(''title'', PyStr []), (''author'', PyStr []), (''date'', PyStr []),
         (''description'', PyStr []), (''content'', PyStr short_text)] = 37
   \<and> run_method (static_only_world short_text) BeautifulSoup example_url
       = Some [(''title'', PyStr []), (''author'', PyStr []), (''date'', PyStr []),
               (''description'', PyStr []), (''content'', PyStr short_text)]
   \<and> run_method (static_only_world short_text) Newspaper example_url = None
   \<and> run_method (static_only_world short_text) Playwright example_url = None
   \<and> extract_article_content (static_only_world short_text) example_url
       = Inr (exhausted_outcome,
              [(Trafilatura, example_url), (BeautifulSoup, example_url),
               (Newspaper, example_url), (Playwright, example_url)])"
proof -
  let ?w = "static_only_world short_text"
  have v: "is_valid_url ?w example_url"
    by (simp add: valid_example urlparse_worlds)
  have l: "trimmed_content_length
        [(''title'', PyStr []), (''author'', PyStr []), (''date'', PyStr []),
         (''description'', PyStr []), (''content'', PyStr short_text)] = 37"
    by (simp add: content_length_simps short_text_stripped short_text_length)
  have b: "scrape_with_beautifulsoup ?w example_url
       = Some [(''title'', PyStr []), (''author'', PyStr []), (''date'', PyStr []),
               (''description'', PyStr []), (''content'', PyStr short_text)]"
    by (simp add: static_only_methods short_text_clean short_text_not_Nil)
  have n: "\<forall>m\<in>set methods. \<not> passes_threshold (run_method ?w m (with_scheme example_url))"
    by (simp add: methods_def with_scheme_example static_only_methods(1,3,4) b
          passes_threshold_def l)
  from sub_threshold_outcome [OF v n] show ?thesis
    using v l b by (simp add: with_scheme_example static_only_methods(1,3,4) methods_def)
qed

section \<open>Faults, validation and exhaustion\<close>

lemma offline_scrapes:
  "scrape_with_trafilatura offline_world url = None"
  "scrape_with_beautifulsoup offline_world url = None"
  "scrape_with_newspaper offline_world url = None"
  "scrape_with_playwright offline_world url = None"
  using offline_methods [of Trafilatura url] offline_methods [of BeautifulSoup url]
    offline_methods [of Newspaper url] offline_methods [of Playwright url]
  by simp_all

lemma except_return_None_Inl: "r = Inl e \<Longrightarrow> except_return_None r = None"
  by (simp add: except_return_None_def)

lemma extract_total:
  "\<exists>out calls. extract_article_content w url0 = Inr (out, calls)
      \<and> (out = invalid_url_outcome \<or> out = exhausted_outcome
          \<or> (\<exists>m d. run_method w m (with_scheme url0) = Some d
                \<and> 20 \<le> trimmed_content_length d \<and> out = success_outcome d))"
proof (cases "is_valid_url w url0")
  case False
  then show ?thesis by (simp add: extract_invalid)
next
  case True
  show ?thesis
    by (cases "run_method w (final_method w (with_scheme url0)) (with_scheme url0)")
       (auto simp: extract_valid [OF True] not_less)
qed

text \<open>
  C3: a fault raised inside a strategy makes the strategy return null: whatever exception
  the \<^verbatim>\<open>try\<close> block of a method raises, the method returns \<^verbatim>\<open>None\<close>; so does a network
  fault of the HTTP session, a response with an error status (400 to 599), a fault of the
  HTML parser and a fault of the browser. And \<open>extract_article_content\<close> never raises:
  for every world and every input string it returns an outcome dictionary, whose
  \<^verbatim>\<open>success\<close> is true, or false with a non-empty \<^verbatim>\<open>error\<close> message.
\<close>

theorem faults_absorbed:
  "(\<forall>e. trafilatura_body w url = Inl e \<longrightarrow> scrape_with_trafilatura w url = None)
   \<and> (\<forall>e. beautifulsoup_body w url = Inl e \<longrightarrow> scrape_with_beautifulsoup w url = None)
   \<and> (\<forall>e. newspaper_body w url = Inl e \<longrightarrow> scrape_with_newspaper w url = None)
   \<and> (\<forall>e. playwright_body w url = Inl e \<longrightarrow> scrape_with_playwright w url = None)
   \<and> (\<forall>e. session_get w url = Inl e \<longrightarrow> scrape_with_beautifulsoup w url = None)
   \<and> (\<forall>resp. session_get w url = Inr resp \<and> 400 \<le> status_code resp \<and> status_code resp < 600
         \<longrightarrow> scrape_with_beautifulsoup w url = None)
   \<and> (\<forall>resp e. session_get w url = Inr resp \<and> bs_parse w (body resp) = Inl e
         \<longrightarrow> scrape_with_beautifulsoup w url = None)
   \<and> (\<forall>e. browser_content w url = Inl e \<longrightarrow> scrape_with_playwright w url = None)
   \<and> (\<exists>out calls. extract_article_content w url0 = Inr (out, calls)
         \<and> (map_of out ''success'' = Some (PyBool True)
             \<or> map_of out ''success'' = Some (PyBool False)
                \<and> (\<exists>msg. msg \<noteq> [] \<and> map_of out ''error'' = Some (PyStr msg))))"
proof -
  have "\<exists>out calls. extract_article_content w url0 = Inr (out, calls)
         \<and> (map_of out ''success'' = Some (PyBool True)
             \<or> map_of out ''success'' = Some (PyBool False)
                \<and> (\<exists>msg. msg \<noteq> [] \<and> map_of out ''error'' = Some (PyStr msg)))"
    using extract_total [of w url0]
    by (auto simp: invalid_url_outcome_def exhausted_outcome_def success_outcome_def ustr_def)
  moreover have "\<forall>resp. session_get w url = Inr resp \<and> 400 \<le> status_code resp \<and> status_code resp < 600
         \<longrightarrow> scrape_with_beautifulsoup w url = None"
    by (simp add: scrape_with_beautifulsoup_def beautifulsoup_body_def raise_for_status_def
          except_return_None_def)
  moreover have "\<forall>resp e. session_get w url = Inr resp \<and> bs_parse w (body resp) = Inl e
         \<longrightarrow> scrape_with_beautifulsoup w url = None"
    by (auto simp: scrape_with_beautifulsoup_def beautifulsoup_body_def raise_for_status_def
          except_return_None_def)
  moreover have "\<forall>e. session_get w url = Inl e \<longrightarrow> scrape_with_beautifulsoup w url = None"
    by (simp add: scrape_with_beautifulsoup_def beautifulsoup_body_def except_return_None_def)
  moreover have "\<forall>e. browser_content w url = Inl e \<longrightarrow> scrape_with_playwright w url = None"
    by (simp add: scrape_with_playwright_def playwright_body_def except_return_None_def)
  ultimately show ?thesis
    by (simp add: scrape_with_trafilatura_def scrape_with_beautifulsoup_def
          scrape_with_newspaper_def scrape_with_playwright_def except_return_None_Inl)
qed

text \<open>
  A run in which every fetch fails, the HTTP session with a network timeout and the
  browser at launch: both strategies return null and the outcome is the failure.
\<close>

theorem faults_absorbed_witness:
  "session_get offline_world example_url = Inl NetworkTimeout
   \<and> beautifulsoup_body offline_world example_url = Inl NetworkTimeout
   \<and> scrape_with_beautifulsoup offline_world example_url = None
   \<and> browser_content offline_world example_url = Inl BrowserLaunchFailure
   \<and> scrape_with_playwright offline_world example_url = None
   \<and> extract_article_content offline_world example_url
       = Inr (exhausted_outcome,
              [(Trafilatura, example_url), (BeautifulSoup, example_url),
               (Newspaper, example_url), (Playwright, example_url)])
   \<and> map_of exhausted_outcome ''success'' = Some (PyBool False)"
proof -
  have s: "session_get offline_world example_url = Inl NetworkTimeout"
    and b: "beautifulsoup_body offline_world example_url = Inl NetworkTimeout"
    and p: "browser_content offline_world example_url = Inl BrowserLaunchFailure"
    by (simp_all add: offline_world_def beautifulsoup_body_def)
  have v: "is_valid_url offline_world example_url"
    by (simp add: valid_example urlparse_worlds)
  have n: "\<forall>m\<in>set methods. \<not> passes_threshold (run_method offline_world m (with_scheme example_url))"
    by (simp add: offline_methods passes_threshold_def)
  have x: "extract_article_content offline_world example_url
       = Inr (exhausted_outcome,
              [(Trafilatura, example_url), (BeautifulSoup, example_url),
               (Newspaper, example_url), (Playwright, example_url)])"
    using extract_valid [OF v]
    by (simp add: offline_methods with_scheme_example calls_made_def methods_def
          passes_threshold_def)
  from faults_absorbed [of offline_world example_url example_url] s b p
  have "scrape_with_beautifulsoup offline_world example_url = None"
    and "scrape_with_playwright offline_world example_url = None"
    by blast+
  with s b p x show ?thesis
    by (simp add: exhausted_outcome_def)
qed







text \<open>
  C5 at the input \<^verbatim>\<open>example.com/article\<close>: the URL is validated as it was given, before
  the scheme step. It has no scheme and no netloc, so the outcome is the failure
  \<^verbatim>\<open>Invalid URL format\<close> and no method is called; the scheme step would have made it
  \<^verbatim>\<open>https://example.com/article\<close>, which is valid.
\<close>

theorem schemeless_url_rejected:
  "urlparse_ref schemeless_url = Inr ([], [])
   \<and> extract_article_content (w\<lparr>urlparse := urlparse_ref\<rparr>) schemeless_url
       = Inr ([(''success'', PyBool False),
               (''error'', PyStr (ustr ''Invalid URL format'')),
               (''content'', PyStr [])], [])
   \<and> with_scheme schemeless_url = ustr ''https://example.com/article''
   \<and> is_valid_url (w\<lparr>urlparse := urlparse_ref\<rparr>) (ustr ''https://example.com/article'')"
proof -
  have "\<not> is_valid_url (w\<lparr>urlparse := urlparse_ref\<rparr>) schemeless_url"
    by (simp add: is_valid_url_def urlparse_schemeless)
  moreover have "is_valid_url (w\<lparr>urlparse := urlparse_ref\<rparr>) example_url"
    by (simp add: valid_example)
  ultimately show ?thesis
    using with_scheme_schemeless
    by (simp add: extract_invalid invalid_url_outcome_def urlparse_schemeless example_url_def)
qed

text \<open>
  C6: when the URL is valid and all four strategies return null, the outcome is the
  dictionary with \<^verbatim>\<open>success\<close> false, the message \<^verbatim>\<open>Unable to extract readable content.
  The site may use paywalls or advanced JS.\<close> as \<^verbatim>\<open>error\<close>, and the empty string as
  \<^verbatim>\<open>content\<close>; nothing else is in it.
\<close>

theorem all_strategies_null:
  assumes "is_valid_url w url0"
    and "\<forall>m\<in>set methods. run_method w m (with_scheme url0) = None"
  shows "extract_article_content w url0
    = Inr ([(''success'', PyBool False),
            (''error'', PyStr (ustr
               ''Unable to extract readable content. The site may use paywalls or advanced JS.'')),
            (''content'', PyStr [])],
           map (\<lambda>m. (m, with_scheme url0)) methods)"
proof -
  have "\<forall>m\<in>set methods. \<not> passes_threshold (run_method w m (with_scheme url0))"
    using assms(2) by (simp add: passes_threshold_def)
  moreover have "run_method w Playwright (with_scheme url0) = None"
    using assms(2) by (simp add: methods_def)
  ultimately show ?thesis
    using extract_valid [OF assms(1)]
    by (simp add: final_method_def calls_made_def exhausted_outcome_def
          takeWhile_eq_all_conv [THEN iffD2] methods_def)
qed

text \<open>The run in which every fetch fails.\<close>

theorem all_strategies_null_witness:
  "is_valid_url offline_world example_url
   \<and> run_method offline_world Trafilatura example_url = None
   \<and> run_method offline_world BeautifulSoup example_url = None
   \<and> run_method offline_world Newspaper example_url = None
   \<and> run_method offline_world Playwright example_url = None
   \<and> extract_article_content offline_world example_url
    = Inr ([(''success'', PyBool False),
            (''error'', PyStr (ustr
               ''Unable to extract readable content. The site may use paywalls or advanced JS.'')),
            (''content'', PyStr [])],
           [(Trafilatura, example_url), (BeautifulSoup, example_url),
            (Newspaper, example_url), (Playwright, example_url)])"
proof -
  have v: "is_valid_url offline_world example_url"
    by (simp add: valid_example urlparse_worlds)
  have n: "\<forall>m\<in>set methods. run_method offline_world m (with_scheme example_url) = None"
    by (simp add: offline_methods)
  from all_strategies_null [OF v n] show ?thesis
    using v by (simp add: with_scheme_example methods_def offline_scrapes)
qed

section \<open>The outcome\<close>

lemma padded_text_clean: "clean_text padded_text = long_text"
  by (simp add: padded_text_def long_text_def ustr_def clean_text_def py_strip_def py_lstrip_def
        py_rstrip_def is_space_def)

lemma padded_text_not_Nil: "padded_text \<noteq> []"
  by (simp add: padded_text_def)

text \<open>
  A metadata key that is missing from the winning result is in the outcome with the empty
  string: the default of \<^verbatim>\<open>result.get(key, '')\<close>.
\<close>

lemma missing_metadata_defaults:
  "map_of d ''title'' = None \<Longrightarrow> map_of (success_outcome d) ''title'' = Some (PyStr [])"
  "map_of d ''author'' = None \<Longrightarrow> map_of (success_outcome d) ''author'' = Some (PyStr [])"
  "map_of d ''date'' = None \<Longrightarrow> map_of (success_outcome d) ''date'' = Some (PyStr [])"
  "map_of d ''description'' = None
     \<Longrightarrow> map_of (success_outcome d) ''description'' = Some (PyStr [])"
  by (simp_all add: success_outcome_def dict_get_def)

text \<open>
  C8 at a run won by trafilatura on a page with a title and nothing else: the metadata
  object has the attributes \<^verbatim>\<open>author\<close>, \<^verbatim>\<open>date\<close> and \<^verbatim>\<open>description\<close> with the value
  \<^verbatim>\<open>None\<close>, \<^verbatim>\<open>getattr\<close> returns the value of an attribute that exists, the result carries
  the three keys with \<^verbatim>\<open>None\<close>, and \<^verbatim>\<open>result.get(key, '')\<close> returns the value of a key that
  exists. The successful outcome has \<^verbatim>\<open>None\<close>, not the empty string, for the three fields
  the strategy had no value for.
\<close>

theorem null_metadata_passed_through:
  "getattr (Some title_only_document) ''author'' (PyStr []) = PyNone
   \<and> scrape_with_trafilatura (trafilatura_world long_text title_only_document) example_url
       = Some [(''content'', PyStr long_text), (''title'', PyStr (ustr ''Fox'')),
               (''author'', PyNone), (''date'', PyNone), (''description'', PyNone)]
   \<and> extract_article_content (trafilatura_world long_text title_only_document) example_url
       = Inr ([(''success'', PyBool True), (''error'', PyStr []),
               (''content'', PyStr long_text), (''title'', PyStr (ustr ''Fox'')),
               (''author'', PyNone), (''date'', PyNone), (''description'', PyNone)],
              [(Trafilatura, example_url)])"
proof -
  let ?w = "trafilatura_world long_text title_only_document"
  let ?d = "[(''content'', PyStr long_text), (''title'', PyStr (ustr ''Fox'')),
             (''author'', PyNone), (''date'', PyNone), (''description'', PyNone)]"
  have v: "is_valid_url ?w example_url"
    by (simp add: valid_example urlparse_worlds)
  have g: "getattr (Some title_only_document) ''author'' (PyStr []) = PyNone"
    by (simp add: getattr_def title_only_document_def)
  have t: "scrape_with_trafilatura ?w example_url = Some ?d"
    by (simp add: trafilatura_method long_text_not_Nil long_text_clean getattr_def
          title_only_document_def)
  have l: "trimmed_content_length ?d = 62"
    by (simp add: content_length_simps long_text_stripped long_text_length)
  have f: "final_method ?w example_url = Trafilatura"
    by (simp add: final_method_def methods_def t passes_threshold_def l)
  have c: "calls_made ?w example_url = [(Trafilatura, example_url)]"
    by (simp add: calls_made_def methods_def t passes_threshold_def l)
  have "extract_article_content ?w example_url = Inr (success_outcome ?d, [(Trafilatura, example_url)])"
    by (simp add: extract_valid [OF v] with_scheme_example f c t l)
  then show ?thesis
    using g t by (simp add: success_outcome_def dict_get_def)
qed

text \<open>
  Against C9 as stated: the outcome for the empty string is a failure, and the key
  \<^verbatim>\<open>content\<close> is present in it, with the empty string.
\<close>

theorem content_present_on_failure:
  "extract_article_content offline_world []
     = Inr ([(''success'', PyBool False), (''error'', PyStr (ustr ''Invalid URL format'')),
             (''content'', PyStr [])], [])
   \<and> map_of [(''success'', PyBool False), (''error'', PyStr (ustr ''Invalid URL format'')),
              (''content'', PyStr [])] ''content'' = Some (PyStr [])"
proof -
  have "\<not> is_valid_url offline_world []"
    by (simp add: is_valid_url_def urlparse_worlds urlparse_empty)
  then show ?thesis
    by (simp add: extract_invalid invalid_url_outcome_def)
qed

text \<open>
  C9, amended: every call returns an outcome of one of two forms. When \<^verbatim>\<open>success\<close> is
  true, \<^verbatim>\<open>error\<close> is the empty string, \<^verbatim>\<open>content\<close> is a string of at least 20 characters
  and the four metadata keys are present. When \<^verbatim>\<open>success\<close> is false, \<^verbatim>\<open>error\<close> is a
  non-empty message, the four metadata keys are absent and \<^verbatim>\<open>content\<close> is present as the
  empty string.
\<close>

theorem outcome_representation:
  "\<exists>out calls. extract_article_content w url0 = Inr (out, calls)
     \<and> (map_of out ''success'' = Some (PyBool True)
          \<and> map_of out ''error'' = Some (PyStr [])
          \<and> (\<exists>c. map_of out ''content'' = Some (PyStr c) \<and> 20 \<le> length c)
          \<and> map_of out ''title'' \<noteq> None \<and> map_of out ''author'' \<noteq> None
          \<and> map_of out ''date'' \<noteq> None \<and> map_of out ''description'' \<noteq> None
        \<or> map_of out ''success'' = Some (PyBool False)
          \<and> (\<exists>msg. msg \<noteq> [] \<and> map_of out ''error'' = Some (PyStr msg))
          \<and> map_of out ''content'' = Some (PyStr [])
          \<and> map_of out ''title'' = None \<and> map_of out ''author'' = None
          \<and> map_of out ''date'' = None \<and> map_of out ''description'' = None)"
proof -
  from extract_total [of w url0] obtain out calls
    where x: "extract_article_content w url0 = Inr (out, calls)"
      and o: "out = invalid_url_outcome \<or> out = exhausted_outcome
          \<or> (\<exists>m d. run_method w m (with_scheme url0) = Some d
                \<and> 20 \<le> trimmed_content_length d \<and> out = success_outcome d)"
    by blast
  from o consider "out = invalid_url_outcome" | "out = exhausted_outcome"
    | m d where "run_method w m (with_scheme url0) = Some d"
        "20 \<le> trimmed_content_length d" "out = success_outcome d"
    by blast
  then show ?thesis
  proof cases
    case 1
    with x show ?thesis
      by (simp add: invalid_url_outcome_def ustr_def)
  next
    case 2
    with x show ?thesis
      by (simp add: exhausted_outcome_def ustr_def)
  next
    case 3
    from run_method_trimmed [OF 3(1)] obtain c
      where "map_of d ''content'' = Some (PyStr c)" "trimmed_content_length d = length c"
      by metis
    with x 3 show ?thesis
      by (simp add: success_outcome_def dict_get_def)
  qed
qed

text \<open>A run won by the browser with 62 characters: the success form.\<close>

theorem outcome_representation_witness:
  "extract_article_content (rendered_only_world long_text) example_url
     = Inr ([(''success'', PyBool True), (''error'', PyStr []),
             (''content'', PyStr long_text), (''title'', PyStr []), (''author'', PyStr []),
             (''date'', PyStr []), (''description'', PyStr [])],
            [(Trafilatura, example_url), (BeautifulSoup, example_url),
             (Newspaper, example_url), (Playwright, example_url)])
   \<and> (\<exists>out calls. extract_article_content (rendered_only_world long_text) example_url
         = Inr (out, calls)
       \<and> map_of out ''success'' = Some (PyBool True)
       \<and> map_of out ''error'' = Some (PyStr [])
       \<and> (\<exists>c. map_of out ''content'' = Some (PyStr c) \<and> 20 \<le> length c)
       \<and> map_of out ''title'' \<noteq> None)"
proof -
  let ?w = "rendered_only_world long_text"
  have v: "is_valid_url ?w example_url"
    by (simp add: valid_example urlparse_worlds)
  have p: "scrape_with_playwright ?w example_url = Some [(''content'', PyStr long_text)]"
    by (simp add: rendered_only_methods long_text_clean long_text_not_Nil)
  have l: "trimmed_content_length [(''content'', PyStr long_text)] = 62"
    by (simp add: content_length_simps long_text_stripped long_text_length)
  have f: "final_method ?w example_url = Playwright"
    by (simp add: final_method_def methods_def rendered_only_methods(1-3) p
          passes_threshold_def l)
  have c: "calls_made ?w example_url =
      [(Trafilatura, example_url), (BeautifulSoup, example_url),
       (Newspaper, example_url), (Playwright, example_url)]"
    by (simp add: calls_made_def methods_def rendered_only_methods(1-3) p
          passes_threshold_def l)
  have x: "extract_article_content ?w example_url
     = Inr ([(''success'', PyBool True), (''error'', PyStr []),
             (''content'', PyStr long_text), (''title'', PyStr []), (''author'', PyStr []),
             (''date'', PyStr []), (''description'', PyStr [])],
            [(Trafilatura, example_url), (BeautifulSoup, example_url),
             (Newspaper, example_url), (Playwright, example_url)])"
    by (simp add: extract_valid [OF v] with_scheme_example f c p l success_outcome_def
          dict_get_def)
  from outcome_representation [of ?w example_url] x show ?thesis
    by auto
qed

text \<open>
  C10: in every successful outcome the content is a string that equals its own trim; it
  is moreover a fixed point of \<open>clean_text\<close>, since it left \<open>clean_text\<close> in the
  strategy that won.
\<close>

theorem content_trimmed:
  assumes "extract_article_content w url0 = Inr (out, calls)"
    and "map_of out ''success'' = Some (PyBool True)"
  shows "\<exists>c. map_of out ''content'' = Some (PyStr c) \<and> py_strip c = c \<and> clean_text c = c"
proof -
  from extract_total [of w url0] assms(1)
  have "out = invalid_url_outcome \<or> out = exhausted_outcome
          \<or> (\<exists>m d. run_method w m (with_scheme url0) = Some d
                \<and> 20 \<le> trimmed_content_length d \<and> out = success_outcome d)"
    by auto
  with assms(2) obtain m d
    where r: "run_method w m (with_scheme url0) = Some d" and o: "out = success_outcome d"
    by (auto simp: invalid_url_outcome_def exhausted_outcome_def)
  from run_method_trimmed [OF r] obtain c
    where "map_of d ''content'' = Some (PyStr c)" "py_strip c = c" "clean_text c = c"
    by metis
  with o show ?thesis
    by (simp add: success_outcome_def dict_get_def)
qed

text \<open>
  A run won by BeautifulSoup on a paragraph with whitespace around its 62 characters: the
  content of the outcome is the 62 characters.
\<close>

theorem content_trimmed_witness:
  "extract_article_content (static_only_world padded_text) example_url
     = Inr ([(''success'', PyBool True), (''error'', PyStr []),
             (''content'', PyStr long_text), (''title'', PyStr []), (''author'', PyStr []),
             (''date'', PyStr []), (''description'', PyStr [])],
            [(Trafilatura, example_url), (BeautifulSoup, example_url)])
   \<and> py_strip long_text = long_text \<and> clean_text long_text = long_text"
proof -
  let ?w = "static_only_world padded_text"
  let ?d = "[(''title'', PyStr []), (''author'', PyStr []), (''date'', PyStr []),
             (''description'', PyStr []), (''content'', PyStr long_text)]"
  have v: "is_valid_url ?w example_url"
    by (simp add: valid_example urlparse_worlds)
  have b: "scrape_with_beautifulsoup ?w example_url = Some ?d"
    by (simp add: static_only_methods padded_text_clean long_text_not_Nil)
  have l: "trimmed_content_length ?d = 62"
    by (simp add: content_length_simps long_text_stripped long_text_length)
  have f: "final_method ?w example_url = BeautifulSoup"
    by (simp add: final_method_def methods_def static_only_methods(1) b passes_threshold_def l)
  have c: "calls_made ?w example_url = [(Trafilatura, example_url), (BeautifulSoup, example_url)]"
    by (simp add: calls_made_def methods_def static_only_methods(1) b passes_threshold_def l)
  have x: "extract_article_content ?w example_url
     = Inr ([(''success'', PyBool True), (''error'', PyStr []),
             (''content'', PyStr long_text), (''title'', PyStr []), (''author'', PyStr []),
             (''date'', PyStr []), (''description'', PyStr [])],
            [(Trafilatura, example_url), (BeautifulSoup, example_url)])"
    by (simp add: extract_valid [OF v] with_scheme_example f c b l success_outcome_def
          dict_get_def)
  from content_trimmed [OF x] have "py_strip long_text = long_text \<and> clean_text long_text = long_text"
    by simp
  with x show ?thesis by simp
qed

end
